theory Spec2Isabelle
  imports Main "HOL-Library.Sublist" "HOL-Library.AList"
begin

section \<open>Strings, runes and UTF-8\<close>

text \<open>
  A Go string is a sequence of bytes; \<^typ>\<open>string\<close> is a list of 8-bit characters, so
  \<^term>\<open>length\<close> is Go's \<open>len\<close>. A rune is an \<open>int32\<close>; the code only compares runes with
  constants, so it is modelled by \<^typ>\<open>int\<close>.
\<close>

type_synonym rune = int

definition RuneError :: rune where
  "RuneError = 0xFFFD"

definition cont :: "nat \<Rightarrow> bool" where
  \<comment> \<open>a UTF-8 continuation byte\<close>
  "cont b \<longleftrightarrow> 0x80 \<le> b \<and> b \<le> 0xBF"

text \<open>
  \<open>utf8.DecodeRuneInString\<close> of the Go standard library: the first rune of the bytes and
  its width. An ill-formed or truncated sequence gives \<open>(RuneError, 1)\<close>, the empty
  string \<open>(RuneError, 0)\<close>. Overlong forms, surrogate halves and values above U+10FFFF are
  ill-formed.
\<close>

fun DecodeRune :: "nat list \<Rightarrow> rune \<times> nat" where
  "DecodeRune [] = (RuneError, 0)"
| "DecodeRune (b0 # bs) =
    (if b0 < 0x80 then (int b0, 1)
     else if 0xC2 \<le> b0 \<and> b0 \<le> 0xDF then
       (case bs of
          b1 # _ \<Rightarrow>
            if cont b1 then (int ((b0 mod 0x20) * 0x40 + b1 mod 0x40), 2)
            else (RuneError, 1)
        | _ \<Rightarrow> (RuneError, 1))
     else if 0xE0 \<le> b0 \<and> b0 \<le> 0xEF then
       (case bs of
          b1 # b2 # _ \<Rightarrow>
            if (if b0 = 0xE0 then 0xA0 else 0x80) \<le> b1
               \<and> b1 \<le> (if b0 = 0xED then 0x9F else 0xBF) \<and> cont b2
            then (int ((b0 mod 0x10) * 0x1000 + (b1 mod 0x40) * 0x40 + b2 mod 0x40), 3)
            else (RuneError, 1)
        | _ \<Rightarrow> (RuneError, 1))
     else if 0xF0 \<le> b0 \<and> b0 \<le> 0xF4 then
       (case bs of
          b1 # b2 # b3 # _ \<Rightarrow>
            if (if b0 = 0xF0 then 0x90 else 0x80) \<le> b1
               \<and> b1 \<le> (if b0 = 0xF4 then 0x8F else 0xBF) \<and> cont b2 \<and> cont b3
            then (int ((b0 mod 0x08) * 0x40000 + (b1 mod 0x40) * 0x1000
                       + (b2 mod 0x40) * 0x40 + b3 mod 0x40), 4)
            else (RuneError, 1)
        | _ \<Rightarrow> (RuneError, 1))
     else (RuneError, 1))"

text \<open>
  The iteration \<open>for _, r := range key\<close>: the runes of the string in order, one
  \<open>RuneError\<close> for each byte that starts no well-formed sequence, each paired with its
  width.
\<close>

function decodeAll :: "nat list \<Rightarrow> (rune \<times> nat) list" where
  "decodeAll [] = []"
| "decodeAll (b # bs) =
     DecodeRune (b # bs) # decodeAll (drop (snd (DecodeRune (b # bs))) (b # bs))"
  by pat_completeness auto
termination
proof (relation "measure length")
  show "wf (measure length)" by simp
next
  fix b :: nat and bs :: "nat list"
  have "1 \<le> snd (DecodeRune (b # bs))"
    by (auto split: list.splits)
  then show "(drop (snd (DecodeRune (b # bs))) (b # bs), b # bs) \<in> measure length"
    by simp
qed

definition bytes_of :: "string \<Rightarrow> nat list" where
  "bytes_of s = map of_char s"

definition runes :: "string \<Rightarrow> rune list" where
  "runes s = map fst (decodeAll (bytes_of s))"

definition ValidString :: "string \<Rightarrow> bool" where
  \<comment> \<open>\<open>utf8.ValidString\<close>: no position decodes to an encoding error of width 1\<close>
  "ValidString s \<longleftrightarrow> list_all (\<lambda>(r, w). \<not> (r = RuneError \<and> w = 1)) (decodeAll (bytes_of s))"

section \<open>Formatting verbs of \<open>fmt\<close>\<close>

definition upperhex :: "nat \<Rightarrow> char" where
  "upperhex d = (''0123456789ABCDEF'') ! (d mod 16)"

fun hex_digits :: "nat \<Rightarrow> string" where
  "hex_digits n = (if n < 16 then [upperhex n] else hex_digits (n div 16) @ [upperhex (n mod 16)])"

fun dec_digits :: "nat \<Rightarrow> string" where
  "dec_digits n = (if n < 10 then [upperhex n] else dec_digits (n div 10) @ [upperhex (n mod 10)])"

definition fmt_U :: "rune \<Rightarrow> string" where
  \<comment> \<open>the verb \<open>%U\<close>: \<open>U+\<close> and at least four upper-case hexadecimal digits of the
      value as an unsigned 64-bit integer (a negative rune prints in two's complement)\<close>
  "fmt_U r =
     (let ds = hex_digits (nat (r mod 0x10000000000000000))
      in ''U+'' @ replicate (4 - length ds) CHR ''0'' @ ds)"

definition fmt_d :: "int \<Rightarrow> string" where
  \<comment> \<open>the verb \<open>%d\<close>\<close>
  "fmt_d i = (if i < 0 then ''-'' else '''') @ dec_digits (nat \<bar>i\<bar>)"

section \<open>Key validation\<close>

definition isLegalXmlCharacter :: "rune \<Rightarrow> bool" where
  "isLegalXmlCharacter r \<longleftrightarrow>
     r = 0x09 \<or>
     r = 0x0A \<or>
     r = 0x0D \<or>
     (r \<ge> 0x20 \<and> r \<le> 0xDF77) \<or>
     (r \<ge> 0xE000 \<and> r \<le> 0xFFFD) \<or>
     (r \<ge> 0x10000 \<and> r \<le> 0x10FFFF)"

text \<open>The loop over the runes of the key: it returns at the first illegal rune.\<close>

fun checkRunes :: "rune list \<Rightarrow> string option" where
  "checkRunes [] = None"
| "checkRunes (r # rs) =
     (if \<not> isLegalXmlCharacter r then Some (''Key contains invalid codepoint: '' @ fmt_U r)
      else checkRunes rs)"

definition validateKey :: "string \<Rightarrow> string option" where
  \<comment> \<open>\<open>None\<close> is the nil error, \<open>Some msg\<close> an error with that message\<close>
  "validateKey key =
     (if length key > 1024 then Some ''Keys may be no longer than 1024 bytes.''
      else if \<not> ValidString key then Some ''Keys must be valid UTF-8.''
      else if key = '''' then Some ''Keys must be non-empty.''
      else checkRunes (runes key))"

text \<open>
  The table of legal characters as the specification writes it (Section 2.2 of XML 1.0,
  which the comment on \<open>Bucket\<close> refers to).
\<close>

definition xml10_legal_spec :: "rune \<Rightarrow> bool" where
  "xml10_legal_spec r \<longleftrightarrow>
     r = 0x09 \<or> r = 0x0A \<or> r = 0x0D \<or>
     (0x20 \<le> r \<and> r \<le> 0xD7FF) \<or>
     (0xE000 \<le> r \<and> r \<le> 0xFFFD) \<or>
     (0x10000 \<le> r \<and> r \<le> 0x10FFFF)"

text \<open>The surrogate block, which no well-formed UTF-8 sequence encodes.\<close>

definition surrogate :: "rune \<Rightarrow> bool" where
  "surrogate r \<longleftrightarrow> 0xD800 \<le> r \<and> r \<le> 0xDFFF"

section \<open>Requests, responses and body streams\<close>

text \<open>
  An \<open>io.ReadSeeker\<close> handed to \<open>Put\<close>: the bytes behind it, the read position, and the
  failures the environment injects. \<open>read_fault = Some (n, e)\<close> makes reading fail with
  error \<open>e\<close> once the bytes before offset \<open>n\<close> have been delivered. \<open>seek_script\<close> lists
  the outcomes of the coming calls of \<open>Seek\<close> (\<open>Some e\<close> fails with \<open>e\<close> and leaves the
  position alone); after the script every \<open>Seek\<close> succeeds.
\<close>

record stream =
  data :: string
  pos :: nat
  read_fault :: "(nat \<times> string) option"
  seek_script :: "string option list"

definition NewReader :: "string \<Rightarrow> stream" where
  \<comment> \<open>\<open>bytes.NewReader\<close>, \<open>bytes.NewBuffer\<close>: an in-memory stream that never fails\<close>
  "NewReader bs = \<lparr>data = bs, pos = 0, read_fault = None, seek_script = []\<rparr>"

definition Seek0 :: "stream \<Rightarrow> string option \<times> stream" where
  \<comment> \<open>\<open>body.Seek(0, 0)\<close>: the error and the stream afterwards\<close>
  "Seek0 s =
     (case seek_script s of
        [] \<Rightarrow> (None, s\<lparr>pos := 0\<rparr>)
      | None # rest \<Rightarrow> (None, s\<lparr>pos := 0, seek_script := rest\<rparr>)
      | Some e # rest \<Rightarrow> (Some e, s\<lparr>seek_script := rest\<rparr>))"

definition Copy :: "stream \<Rightarrow> (string \<times> string option) \<times> stream" where
  \<comment> \<open>\<open>io.Copy(md5Hash, body)\<close>: the bytes written to the hash, the error, the stream
      afterwards; reading runs from the position to the end of the data or to the fault\<close>
  "Copy s =
     (case read_fault s of
        Some (n, e) \<Rightarrow>
          if pos s \<le> n \<and> n \<le> length (data s)
          then ((take (n - pos s) (drop (pos s) (data s)), Some e), s\<lparr>pos := n\<rparr>)
          else ((drop (pos s) (data s), None), s\<lparr>pos := max (pos s) (length (data s))\<rparr>)
      | None \<Rightarrow> ((drop (pos s) (data s), None), s\<lparr>pos := max (pos s) (length (data s))\<rparr>))"

definition seekable :: "stream \<Rightarrow> bool" where
  \<comment> \<open>a stream on which no call of \<open>Seek\<close> fails\<close>
  "seekable s \<longleftrightarrow> list_all (\<lambda>r. r = None) (seek_script s)"

text \<open>
  \<open>http.Request\<close>. The two Go maps are association lists with distinct keys; a store
  \<open>m[k] = v\<close> is \<^const>\<open>AList.update\<close>.
\<close>

record request =
  Verb :: string
  Path :: string
  Headers :: "(string \<times> string) list"
  Parameters :: "(string \<times> string) list"
  ReqBody :: "stream option"

text \<open>
  Modelled from the spec: the type \<open>http.Response\<close> and its method \<open>ReadBody\<close>, whose
  file is not among the sources. The connection stores the system library's
  \<open>io.ReadCloser\<close> in \<open>Body\<close>, and the tests store an \<open>ioutil.NopCloser\<close> there, so
  \<open>Body\<close> is a stream object and not the bytes. \<open>read_all\<close> is what reading that stream to
  its end gives (\<open>Inl\<close> the read error), and \<open>rendering\<close> is the text \<open>fmt\<close> prints for
  the stream object itself under the verb \<open>%s\<close>: a dump of the fields of whatever reader
  type the connection supplied (for a network body, counters and pointers), which the bytes
  that a read returns do not determine.
\<close>

record body_stream =
  read_all :: "string + string"
  rendering :: string

text \<open>
  \<open>Header\<close> is a Go map (\<open>net/http\<close>'s \<open>Header\<close>): \<open>None\<close> is the nil map of a
  response built without one, \<open>Some\<close> an association list.
\<close>

record response =
  StatusCode :: int
  Header :: "(string \<times> string list) list option"
  Body :: body_stream

definition ReadBody :: "response \<Rightarrow> string + string" where
  "ReadBody httpResp = read_all (Body httpResp)"

text \<open>
  The parts of the Go standard library that are taken as parameters: the MD5 digest, the
  base64 encoder (whose \<open>Write\<close> may report an error) and the XML tokenizer, which gives
  the syntax error of a document or its root element: the local name and the children.
\<close>

datatype xml_node = Element string "xml_node list" | CharData string

record lib =
  md5_sum :: "string \<Rightarrow> string"
  base64_write :: "string \<Rightarrow> string + string"
  xml_parse :: "string \<Rightarrow> string + string \<times> xml_node list"

section \<open>The content-integrity helper\<close>

text \<open>
  \<open>encodeMD5\<close> has the named results \<open>(result, err)\<close>. Once the first \<open>Seek\<close> has
  succeeded, a deferred function runs on every return and assigns the outcome of a second
  \<open>Seek\<close> to \<open>err\<close>, after the \<open>return\<close> statement has set the results.
\<close>

definition encodeMD5 :: "lib \<Rightarrow> stream \<Rightarrow> (string \<times> string option) \<times> stream" where
  "encodeMD5 L body =
     (case Seek0 body of
        (Some err, body1) \<Rightarrow> (('''', Some err), body1)
      | (None, body1) \<Rightarrow>
          (case Copy body1 of
             ((hashed, copyErr), body2) \<Rightarrow>
               let (result, err) =
                     (case copyErr of
                        Some e \<Rightarrow> ('''', Some (''md5Hash.Copy: '' @ e))
                      | None \<Rightarrow>
                          (case base64_write L (md5_sum L hashed) of
                             Inl e \<Rightarrow> ('''', Some (''base64Encoder.Write: '' @ e))
                           | Inr encoded \<Rightarrow> (encoded, None)));
                   (seekErr, body3) = Seek0 body2
               in ((result, seekErr), body3)))"

definition addMd5Header :: "lib \<Rightarrow> request \<Rightarrow> string \<Rightarrow> string option \<times> request" where
  "addMd5Header L r body =
     (case fst (encodeMD5 L (NewReader body)) of
        (bodyMD5, Some err) \<Rightarrow> (Some err, r)
      | (bodyMD5, None) \<Rightarrow>
          (None, r\<lparr>Headers := AList.update ''Content-MD5'' bodyMD5 (Headers r)\<rparr>))"

definition serverError :: "response \<Rightarrow> string" where
  \<comment> \<open>the message of the error returned; \<open>serverError\<close> never returns nil\<close>
  "serverError httpResp =
     (case ReadBody httpResp of
        Inl readErr \<Rightarrow> readErr
      | Inr body \<Rightarrow> ''Error from server: '' @ fmt_d (StatusCode httpResp) @ '' '' @ body)"

section \<open>The bucket and its collaborators\<close>

text \<open>
  The bucket holds its name and the injected collaborators. \<open>signer\<close> gives the error of
  \<open>Sign\<close> and the request as the signer left it (it works on a pointer); \<open>httpConn\<close>
  gives the outcome of \<open>SendRequest\<close>; \<open>clock\<close> is the text of
  \<open>clock.Now().UTC().Format(RFC1123)\<close>. Every call of a collaborator is recorded, in
  order, in a log of events that the operations thread through.
\<close>

record bucket =
  name :: string
  httpConn :: "request \<Rightarrow> string + response"
  signer :: "request \<Rightarrow> string option \<times> request"
  clock :: string

datatype event = Sign request | SendRequest request

subsection \<open>GetObject\<close>

definition GetObject ::
  "bucket \<Rightarrow> string \<Rightarrow> event list \<Rightarrow> (string + string) \<times> event list" where
  "GetObject b key log =
     (case validateKey key of
        Some err \<Rightarrow> (Inl err, log)
      | None \<Rightarrow>
          let httpReq = \<lparr>Verb = ''GET'', Path = ''/'' @ name b @ ''/'' @ key,
                         Headers = [(''Date'', clock b)], Parameters = [], ReqBody = None\<rparr>;
              log1 = log @ [Sign httpReq]
          in (case signer b httpReq of
                (Some err, signed) \<Rightarrow> (Inl (''Sign: '' @ err), log1)
              | (None, signed) \<Rightarrow>
                  let log2 = log1 @ [SendRequest signed]
                  in (case httpConn b signed of
                        Inl err \<Rightarrow> (Inl (''SendRequest: '' @ err), log2)
                      | Inr httpResp \<Rightarrow>
                          if StatusCode httpResp \<noteq> 200 then (Inl (serverError httpResp), log2)
                          else (ReadBody httpResp, log2))))"

subsection \<open>GetHeader\<close>

text \<open>
  The results are the pair \<open>(header, err)\<close>; \<open>None\<close> is nil in both places. Once a
  response has come back, the header returned is the field \<open>Header\<close> of the response as
  it is.
\<close>

definition GetHeader ::
  "bucket \<Rightarrow> string \<Rightarrow> event list
     \<Rightarrow> ((string \<times> string list) list option \<times> string option) \<times> event list" where
  "GetHeader b key log =
     (case validateKey key of
        Some err \<Rightarrow> ((None, Some err), log)
      | None \<Rightarrow>
          let httpReq = \<lparr>Verb = ''HEAD'', Path = ''/'' @ name b @ ''/'' @ key,
                         Headers = [(''Date'', clock b)], Parameters = [], ReqBody = None\<rparr>;
              log1 = log @ [Sign httpReq]
          in (case signer b httpReq of
                (Some err, signed) \<Rightarrow> ((None, Some (''Sign: '' @ err)), log1)
              | (None, signed) \<Rightarrow>
                  let log2 = log1 @ [SendRequest signed]
                  in (case httpConn b signed of
                        Inl err \<Rightarrow> ((None, Some (''SendRequest: '' @ err)), log2)
                      | Inr httpResp \<Rightarrow>
                          if StatusCode httpResp \<noteq> 200
                          then ((Header httpResp, Some (serverError httpResp)), log2)
                          else ((Header httpResp, None), log2))))"

subsection \<open>StoreObject\<close>

definition StoreObject ::
  "lib \<Rightarrow> bucket \<Rightarrow> string \<Rightarrow> string \<Rightarrow> event list \<Rightarrow> string option \<times> event list" where
  "StoreObject L b key bs log =
     (case validateKey key of
        Some err \<Rightarrow> (Some err, log)
      | None \<Rightarrow>
          let httpReq = \<lparr>Verb = ''PUT'', Path = ''/'' @ name b @ ''/'' @ key,
                         Headers = [(''Date'', clock b)], Parameters = [],
                         ReqBody = Some (NewReader bs)\<rparr>
          in (case addMd5Header L httpReq bs of
                (Some err, httpReq1) \<Rightarrow> (Some err, log)
              | (None, httpReq1) \<Rightarrow>
                  let log1 = log @ [Sign httpReq1]
                  in (case signer b httpReq1 of
                        (Some err, signed) \<Rightarrow> (Some (''Sign: '' @ err), log1)
                      | (None, signed) \<Rightarrow>
                          let log2 = log1 @ [SendRequest signed]
                          in (case httpConn b signed of
                                Inl err \<Rightarrow> (Some (''SendRequest: '' @ err), log2)
                              | Inr httpResp \<Rightarrow>
                                  if StatusCode httpResp \<noteq> 200
                                  then (Some (serverError httpResp), log2)
                                  else (None, log2)))))"

subsection \<open>DeleteObject\<close>

definition DeleteObject ::
  "lib \<Rightarrow> bucket \<Rightarrow> string \<Rightarrow> event list \<Rightarrow> string option \<times> event list" where
  "DeleteObject L b key log =
     (case validateKey key of
        Some err \<Rightarrow> (Some err, log)
      | None \<Rightarrow>
          let httpReq = \<lparr>Verb = ''DELETE'', Path = ''/'' @ name b @ ''/'' @ key,
                         Headers = [(''Date'', clock b)], Parameters = [], ReqBody = None\<rparr>
          in (case addMd5Header L httpReq [] of
                (Some err, httpReq1) \<Rightarrow> (Some err, log)
              | (None, httpReq1) \<Rightarrow>
                  let log1 = log @ [Sign httpReq1]
                  in (case signer b httpReq1 of
                        (Some err, signed) \<Rightarrow> (Some (''Sign: '' @ err), log1)
                      | (None, signed) \<Rightarrow>
                          let log2 = log1 @ [SendRequest signed]
                          in (case httpConn b signed of
                                Inl err \<Rightarrow> (Some (''SendRequest: '' @ err), log2)
                              | Inr httpResp \<Rightarrow>
                                  if StatusCode httpResp \<noteq> 204
                                  then (Some (serverError httpResp), log2)
                                  else (None, log2)))))"

subsection \<open>Put\<close>

text \<open>
  \<open>Put\<close> works on the caller's stream: the result carries the stream as the call leaves
  it when it returns before sending, and as it is handed to the connection otherwise.
\<close>

definition Put ::
  "lib \<Rightarrow> bucket \<Rightarrow> string \<Rightarrow> stream \<Rightarrow> event list
     \<Rightarrow> (string option \<times> stream) \<times> event list" where
  "Put L b key body log =
     (case validateKey key of
        Some err \<Rightarrow> ((Some err, body), log)
      | None \<Rightarrow>
          (case encodeMD5 L body of
             ((contentMD5, Some err), body1) \<Rightarrow> ((Some err, body1), log)
           | ((contentMD5, None), body1) \<Rightarrow>
               let httpReq = \<lparr>Verb = ''PUT'', Path = ''/'' @ name b @ ''/'' @ key,
                              Headers = [(''Date'', clock b), (''Content-MD5'', contentMD5)],
                              Parameters = [], ReqBody = Some body1\<rparr>;
                   log1 = log @ [Sign httpReq]
               in (case signer b httpReq of
                     (Some err, signed) \<Rightarrow> ((Some (''Sign: '' @ err), body1), log1)
                   | (None, signed) \<Rightarrow>
                       let log2 = log1 @ [SendRequest signed]
                       in (case httpConn b signed of
                             Inl err \<Rightarrow> ((Some (''SendRequest: '' @ err), body1), log2)
                           | Inr httpResp \<Rightarrow>
                               if StatusCode httpResp \<noteq> 200
                               then ((Some (serverError httpResp), body1), log2)
                               else ((None, body1), log2)))))"

subsection \<open>ListKeys\<close>

record bucketContents =
  Key :: string

record listBucketResult =
  XMLName_Local :: string
  Contents :: "bucketContents list"

text \<open>
  \<open>xml.Unmarshal\<close> into \<open>listBucketResult\<close>, as \<open>encoding/xml\<close> documents it for these
  two struct types: the field \<open>XMLName\<close> takes the name of the root element whatever it
  is; every child element named \<open>Contents\<close> appends one \<open>bucketContents\<close>, in document
  order; inside it every child element named \<open>Key\<close> stores its character data in the
  field \<open>Key\<close> (a later one overwrites an earlier one); all other children are skipped.
\<close>

fun chardata :: "xml_node list \<Rightarrow> string" where
  "chardata [] = ''''"
| "chardata (CharData t # ns) = t @ chardata ns"
| "chardata (Element n kids # ns) = chardata ns"

fun unmarshalContents :: "xml_node list \<Rightarrow> bucketContents \<Rightarrow> bucketContents" where
  "unmarshalContents [] c = c"
| "unmarshalContents (CharData t # ns) c = unmarshalContents ns c"
| "unmarshalContents (Element n kids # ns) c =
     unmarshalContents ns (if n = ''Key'' then c\<lparr>Key := chardata kids\<rparr> else c)"

fun unmarshalResult :: "xml_node list \<Rightarrow> bucketContents list" where
  "unmarshalResult [] = []"
| "unmarshalResult (CharData t # ns) = unmarshalResult ns"
| "unmarshalResult (Element n kids # ns) =
     (if n = ''Contents'' then unmarshalContents kids \<lparr>Key = ''''\<rparr> # unmarshalResult ns
      else unmarshalResult ns)"

definition Unmarshal :: "lib \<Rightarrow> string \<Rightarrow> string + listBucketResult" where
  "Unmarshal L body =
     (case xml_parse L body of
        Inl err \<Rightarrow> Inl err
      | Inr (root, kids) \<Rightarrow>
          Inr \<lparr>XMLName_Local = root, Contents = unmarshalResult kids\<rparr>)"

definition ListKeys ::
  "lib \<Rightarrow> bucket \<Rightarrow> string \<Rightarrow> event list \<Rightarrow> (string + string list) \<times> event list" where
  "ListKeys L b prevKey log =
     (let verr = validateKey prevKey
      in if verr \<noteq> None \<and> prevKey \<noteq> '''' then (Inl (the verr), log)
         else
           let httpReq0 = \<lparr>Verb = ''GET'', Path = ''/'' @ name b,
                           Headers = [(''Date'', clock b)], Parameters = [], ReqBody = None\<rparr>;
               httpReq = (if prevKey \<noteq> ''''
                          then httpReq0\<lparr>Parameters :=
                                 AList.update ''marker'' prevKey (Parameters httpReq0)\<rparr>
                          else httpReq0);
               log1 = log @ [Sign httpReq]
           in (case signer b httpReq of
                 (Some err, signed) \<Rightarrow> (Inl (''Sign: '' @ err), log1)
               | (None, signed) \<Rightarrow>
                   let log2 = log1 @ [SendRequest signed]
                   in (case httpConn b signed of
                         Inl err \<Rightarrow> (Inl (''SendRequest: '' @ err), log2)
                       | Inr httpResp \<Rightarrow>
                           if StatusCode httpResp \<noteq> 200 then (Inl (serverError httpResp), log2)
                           else
                             (case ReadBody httpResp of
                                Inl err \<Rightarrow> (Inl err, log2)
                              | Inr body \<Rightarrow>
                                  (case Unmarshal L body of
                                     Inl err \<Rightarrow>
                                       (Inl (''Invalid data from server ('' @ err @ ''): '' @ body),
                                        log2)
                                   | Inr result \<Rightarrow>
                                       if XMLName_Local result \<noteq> ''ListBucketResult''
                                       then (Inl (''Invalid data from server: ''
                                                  @ rendering (Body httpResp)), log2)
                                       else (Inr (map Key (Contents result)), log2))))))"

section \<open>The query string of the connection\<close>

text \<open>
  \<open>makeRawQuery\<close> copies the parameters into a \<open>url.Values\<close> with \<open>Set\<close> and returns
  \<open>Encode()\<close>. The two library functions are modelled as \<open>net/url\<close> documents them:
  \<open>QueryEscape\<close> keeps letters, digits and \<open>- _ . ~\<close>, writes a space as \<open>+\<close> and every
  other byte as \<open>%XX\<close> in upper-case hexadecimal; \<open>Encode\<close> writes \<open>key=value\<close> pairs
  joined by \<open>&\<close>, sorted by key (bytewise).
\<close>

definition shouldEscape :: "char \<Rightarrow> bool" where
  \<comment> \<open>in the mode \<open>encodeQueryComponent\<close>\<close>
  "shouldEscape c \<longleftrightarrow>
     (let n = (of_char c :: nat)
      in \<not> ((0x61 \<le> n \<and> n \<le> 0x7A) \<or> (0x41 \<le> n \<and> n \<le> 0x5A) \<or> (0x30 \<le> n \<and> n \<le> 0x39)
             \<or> c \<in> set ''-_.~''))"

definition escapeByte :: "char \<Rightarrow> string" where
  "escapeByte c =
     (if c = CHR '' '' then ''+''
      else if shouldEscape c
      then [CHR ''%'', upperhex (of_char c div 16), upperhex (of_char c mod 16)]
      else [c])"

definition QueryEscape :: "string \<Rightarrow> string" where
  "QueryEscape s = concat (map escapeByte s)"

fun str_less :: "string \<Rightarrow> string \<Rightarrow> bool" where
  "str_less [] [] = False"
| "str_less [] (y # ys) = True"
| "str_less (x # xs) [] = False"
| "str_less (x # xs) (y # ys) =
     ((of_char x :: nat) < of_char y \<or> (x = y \<and> str_less xs ys))"

fun insert_key :: "string \<times> 'v \<Rightarrow> (string \<times> 'v) list \<Rightarrow> (string \<times> 'v) list" where
  "insert_key p [] = [p]"
| "insert_key p (q # qs) = (if str_less (fst q) (fst p) then q # insert_key p qs else p # q # qs)"

definition sort_keys :: "(string \<times> 'v) list \<Rightarrow> (string \<times> 'v) list" where
  "sort_keys kvs = foldr insert_key kvs []"

fun Join :: "string list \<Rightarrow> string \<Rightarrow> string" where
  "Join [] sep = ''''"
| "Join [p] sep = p"
| "Join (p # q # ps) sep = p @ sep @ Join (q # ps) sep"

definition Values_Set :: "string \<Rightarrow> string \<Rightarrow> (string \<times> string list) list
    \<Rightarrow> (string \<times> string list) list" where
  "Values_Set k v vals = AList.update k [v] vals"

definition Values_Encode :: "(string \<times> string list) list \<Rightarrow> string" where
  "Values_Encode vals =
     Join (concat (map (\<lambda>(k, vs). map (\<lambda>v. QueryEscape k @ ''='' @ QueryEscape v) vs)
                       (sort_keys vals))) ''&''"

definition makeRawQuery :: "request \<Rightarrow> string" where
  "makeRawQuery r =
     Values_Encode (foldl (\<lambda>vals (k, v). Values_Set k v vals) [] (Parameters r))"

text \<open>
  The parameter set \<open>{"\<dots>": "burrito", "b&az=": "qu ?x"}\<close> whose first key is the two
  Korean syllables U+D0C0 U+CF54, in UTF-8, in both orders a map iteration may give; and
  the text the specification expects for it.
\<close>

definition taco_key :: string where
  "taco_key = [CHR 0xED, CHR 0x83, CHR 0x80, CHR 0xEC, CHR 0xBD, CHR 0x94]"

definition escaping_request :: request where
  "escaping_request =
     \<lparr>Verb = ''GET'', Path = ''/'', Headers = [],
      Parameters = [(taco_key, ''burrito''), (''b&az='', ''qu ?x'')], ReqBody = None\<rparr>"

definition escaping_request_rev :: request where
  "escaping_request_rev =
     \<lparr>Verb = ''GET'', Path = ''/'', Headers = [],
      Parameters = [(''b&az='', ''qu ?x''), (taco_key, ''burrito'')], ReqBody = None\<rparr>"

definition expected_query :: string where
  "expected_query = ''%ED%83%80%EC%BD%94=burrito&b%26az%3D=qu%20%3Fx''"

section \<open>Concrete inputs\<close>

text \<open>
  A library whose digest and encoder tag their input, and whose XML tokenizer knows the
  documents used below; buckets whose signer accepts every request and whose connection
  refuses, or serves one fixed response.
\<close>

definition two_keys_doc :: string where
  "two_keys_doc =
     ''<ListBucketResult><Contents><Key>bar</Key></Contents><Contents><Key>baz</Key></Contents></ListBucketResult>''"

definition foobar_doc :: string where
  "foobar_doc = ''<FooBar><Contents><Key>some_key</Key></Contents></FooBar>''"

definition test_lib :: lib where
  "test_lib =
     \<lparr>md5_sum = (\<lambda>bs. ''md5:'' @ bs),
      base64_write = (\<lambda>d. Inr (''b64:'' @ d)),
      xml_parse = (\<lambda>doc.
        if doc = two_keys_doc
        then Inr (''ListBucketResult'',
                  [Element ''Contents'' [Element ''Key'' [CharData ''bar'']],
                   Element ''Contents'' [Element ''Key'' [CharData ''baz'']]])
        else if doc = foobar_doc
        then Inr (''FooBar'', [Element ''Contents'' [Element ''Key'' [CharData ''some_key'']]])
        else Inl ''EOF'')\<rparr>"

definition refusing :: bucket where
  "refusing =
     \<lparr>name = ''some.bucket'', httpConn = (\<lambda>r. Inl ''connection refused''),
      signer = (\<lambda>r. (None, r)), clock = ''Mon, 18 Mar 1985 15:33:17 UTC''\<rparr>"

definition served :: "response \<Rightarrow> bucket" where
  "served resp =
     \<lparr>name = ''some.bucket'', httpConn = (\<lambda>r. Inr resp),
      signer = (\<lambda>r. (None, r)), clock = ''Mon, 18 Mar 1985 15:33:17 UTC''\<rparr>"

definition network_body :: "string + string \<Rightarrow> body_stream" where
  \<comment> \<open>a body as the connection supplies it: the reader prints as a pointer dump\<close>
  "network_body outcome = \<lparr>read_all = outcome, rendering = ''&{0xc000104000 false}''\<rparr>"

definition unreadable_500 :: response where
  "unreadable_500 =
     \<lparr>StatusCode = 500, Header = Some [], Body = network_body (Inl ''connection reset by peer'')\<rparr>"

definition taco_500 :: response where
  "taco_500 =
     \<lparr>StatusCode = 500, Header = Some [(''Server'', [''AmazonS3''])],
      Body = network_body (Inr ''taco'')\<rparr>"

definition ok_200 :: response where
  "ok_200 = \<lparr>StatusCode = 200, Header = Some [(''Server'', [''AmazonS3''])],
             Body = network_body (Inr '''')\<rparr>"

definition null_key :: string where
  "null_key = ''taco'' @ [CHR 0x00] @ ''burrito''"

definition faulty_stream :: stream where
  \<comment> \<open>reading fails after four bytes; seeking works\<close>
  "faulty_stream =
     \<lparr>data = ''taco burrito'', pos = 7, read_fault = Some (4, ''input/output error''),
      seek_script = [None, None]\<rparr>"

definition empty_doc :: string where
  "empty_doc = ''<ListBucketResult></ListBucketResult>''"

definition listing_lib :: lib where
  \<comment> \<open>\<^const>\<open>test_lib\<close> with a tokenizer that also knows the empty listing\<close>
  "listing_lib =
     test_lib\<lparr>xml_parse := (\<lambda>doc. if doc = empty_doc then Inr (''ListBucketResult'', [])
                                 else xml_parse test_lib doc)\<rparr>"

definition two_keys_200 :: response where
  "two_keys_200 = \<lparr>StatusCode = 200, Header = Some [], Body = network_body (Inr two_keys_doc)\<rparr>"

definition empty_200 :: response where
  "empty_200 = \<lparr>StatusCode = 200, Header = Some [], Body = network_body (Inr empty_doc)\<rparr>"

definition foobar_200 :: response where
  "foobar_200 = \<lparr>StatusCode = 200, Header = Some [], Body = network_body (Inr foobar_doc)\<rparr>"

definition no_content_204 :: response where
  "no_content_204 = \<lparr>StatusCode = 204, Header = Some [], Body = network_body (Inr '''')\<rparr>"

definition headerless_500 :: response where
  \<comment> \<open>a response built without a header, as the fake server of the tests builds it\<close>
  "headerless_500 = \<lparr>StatusCode = 500, Header = None, Body = network_body (Inr ''taco'')\<rparr>"

section \<open>The keys of a listing, as the specification words them\<close>

text \<open>
  The \<open>Key\<close> values nested under the repeated \<open>Contents\<close> elements of the root, in
  document order: for each child element of the root named \<open>Contents\<close>, the character data
  of its \<open>Key\<close> element (of the last one, should there be several; the empty text, should
  there be none).
\<close>

definition key_elements :: "xml_node list \<Rightarrow> xml_node list list" where
  "key_elements cs = [ks. Element n ks \<leftarrow> cs, n = ''Key'']"

definition key_text :: "xml_node list \<Rightarrow> string" where
  "key_text cs = (if key_elements cs = [] then '''' else chardata (last (key_elements cs)))"

definition document_keys :: "xml_node list \<Rightarrow> string list" where
  "document_keys kids = [key_text cs. Element n cs \<leftarrow> kids, n = ''Contents'']"

section \<open>Key validation: the legal-character table\<close>

text \<open>
  C1. The specification's table ends the first range at U+D7FF, where the surrogate block
  begins. \<open>isLegalXmlCharacter\<close> ends it at U+DF77: it accepts the rune U+D800, which the
  table excludes.
\<close>

theorem isLegalXmlCharacter_accepts_surrogate:
  "isLegalXmlCharacter 0xD800 \<and> \<not> xml10_legal_spec 0xD800"
  by (simp add: isLegalXmlCharacter_def xml10_legal_spec_def)

text \<open>
  The runes that \<open>validateKey\<close> hands to the predicate come from decoding a string that
  \<open>utf8.ValidString\<close> has accepted, and the decoder never yields a surrogate. Outside the
  surrogate block the predicate and the table agree, so the verdicts of \<open>validateKey\<close>
  follow the table.
\<close>

lemma lead_mod: "m * q \<le> b \<Longrightarrow> b < m * q + m \<Longrightarrow> b mod m = b - m * (q::nat)"
proof -
  assume a: "m * q \<le> b" "b < m * q + m"
  then obtain k where k: "b = m * q + k" and "k < m"
    by (metis add_less_cancel_left le_Suc_ex)
  then show ?thesis by simp
qed

lemma two_byte: "(b0 mod 0x20) * 0x40 + b1 mod 0x40 < (0xD800::nat)"
proof -
  have "b0 mod 0x20 < 0x20" "b1 mod 0x40 < 0x40" by simp_all
  then show ?thesis by linarith
qed

lemma three_byte_low:
  assumes "0xE0 \<le> b0" "b0 < 0xED"
  shows "(b0 mod 0x10) * 0x1000 + (b1 mod 0x40) * 0x40 + b2 mod 0x40 < (0xD800::nat)"
proof -
  have "b0 mod 0x10 = b0 - 0x10 * 0xE" using assms by (intro lead_mod) simp_all
  moreover have "b1 mod 0x40 < 0x40" "b2 mod 0x40 < 0x40" by simp_all
  ultimately show ?thesis using assms by linarith
qed

lemma three_byte_ED:
  assumes "0x80 \<le> b1" "b1 \<le> 0x9F"
  shows "(0xED mod 0x10) * 0x1000 + (b1 mod 0x40) * 0x40 + b2 mod 0x40 < (0xD800::nat)"
proof -
  have "b1 mod 0x40 = b1 - 0x40 * 0x2" using assms by (intro lead_mod) simp_all
  moreover have "b2 mod 0x40 < 0x40" by simp
  ultimately show ?thesis using assms by simp
qed

lemma three_byte_high:
  assumes "0xED < b0" "b0 \<le> 0xEF"
  shows "(0xDFFF::nat) < (b0 mod 0x10) * 0x1000 + (b1 mod 0x40) * 0x40 + b2 mod 0x40"
proof -
  have "b0 mod 0x10 = b0 - 0x10 * 0xE" using assms by (intro lead_mod) simp_all
  then show ?thesis using assms by simp
qed

lemma four_byte:
  assumes "0xF0 \<le> b0" "b0 \<le> 0xF4" "(if b0 = 0xF0 then 0x90 else 0x80) \<le> b1" "b1 \<le> 0xBF"
  shows "(0xDFFF::nat) < (b0 mod 0x08) * 0x40000 + (b1 mod 0x40) * 0x1000 + (b2 mod 0x40) * 0x40 + b3 mod 0x40"
proof (cases "b0 = 0xF0")
  case True
  then have "0x90 \<le> b1" using assms by simp
  then have "b1 mod 0x40 = b1 - 0x40 * 0x2" using assms by (intro lead_mod) simp_all
  then show ?thesis using \<open>0x90 \<le> b1\<close> by simp
next
  case False
  have "b0 mod 0x08 = b0 - 0x08 * 0x1E" using assms by (intro lead_mod) simp_all
  then show ?thesis using assms False by simp
qed

lemma not_surrogate_nat: "n < (0xD800::nat) \<or> (0xDFFF::nat) < n \<Longrightarrow> \<not> surrogate (int n)"
  by (auto simp: surrogate_def)

lemma DecodeRune_not_surrogate: "\<not> surrogate (fst (DecodeRune bs))"
proof (cases bs)
  case Nil
  then show ?thesis by (simp add: surrogate_def RuneError_def)
next
  case (Cons b0 rest)
  have err: "\<not> surrogate RuneError" by (simp add: surrogate_def RuneError_def)
  consider (ascii) "b0 < 0x80" | (two) "0xC2 \<le> b0" "b0 \<le> 0xDF"
    | (three) "0xE0 \<le> b0" "b0 \<le> 0xEF" | (four) "0xF0 \<le> b0" "b0 \<le> 0xF4"
    | (other) "\<not> b0 < 0x80" "\<not> (0xC2 \<le> b0 \<and> b0 \<le> 0xDF)" "\<not> (0xE0 \<le> b0 \<and> b0 \<le> 0xEF)"
        "\<not> (0xF0 \<le> b0 \<and> b0 \<le> 0xF4)"
    by linarith
  then show ?thesis
  proof cases
    case ascii
    then show ?thesis using Cons by (simp add: surrogate_def)
  next
    case two
    have "\<not> surrogate (int ((b0 mod 0x20) * 0x40 + b1 mod 0x40))" for b1
      by (intro not_surrogate_nat disjI1 two_byte)
    then show ?thesis using Cons err two
      by (auto split: list.splits simp del: of_nat_add of_nat_mult)
  next
    case three
    have "\<not> surrogate (int ((b0 mod 0x10) * 0x1000 + (b1 mod 0x40) * 0x40 + b2 mod 0x40))"
      if "(if b0 = 0xE0 then 0xA0 else 0x80) \<le> b1" "b1 \<le> (if b0 = 0xED then 0x9F else 0xBF)"
      for b1 b2
    proof (rule not_surrogate_nat)
      consider "b0 < 0xED" | "b0 = 0xED" | "0xED < b0" by linarith
      then show "(b0 mod 0x10) * 0x1000 + (b1 mod 0x40) * 0x40 + b2 mod 0x40 < (0xD800::nat)
          \<or> (0xDFFF::nat) < (b0 mod 0x10) * 0x1000 + (b1 mod 0x40) * 0x40 + b2 mod 0x40"
      proof cases
        case 1 then show ?thesis using three three_byte_low by blast
      next
        case 2
        with that have "0x80 \<le> b1" "b1 \<le> 0x9F" by simp_all
        then show ?thesis using three_byte_ED 2 by blast
      next
        case 3 then show ?thesis using three three_byte_high by blast
      qed
    qed
    then show ?thesis using Cons err three
      by (auto split: list.splits simp del: of_nat_add of_nat_mult)
  next
    case four
    have "\<not> surrogate (int ((b0 mod 0x08) * 0x40000 + (b1 mod 0x40) * 0x1000
                       + (b2 mod 0x40) * 0x40 + b3 mod 0x40))"
      if "(if b0 = 0xF0 then 0x90 else 0x80) \<le> b1" "b1 \<le> 0xBF" for b1 b2 b3
      using four that by (intro not_surrogate_nat disjI2 four_byte)
    then show ?thesis using Cons err four
      by (auto split: list.splits simp del: of_nat_add of_nat_mult)
  next
    case other
    have "DecodeRune (b0 # rest) = (RuneError, 1)"
      by (simp only: DecodeRune.simps other if_False)
    then show ?thesis using Cons err by simp
  qed
qed


lemma decodeAll_not_surrogate: "(r, w) \<in> set (decodeAll bs) \<Longrightarrow> \<not> surrogate r"
proof (induction bs rule: decodeAll.induct)
  case 1
  then show ?case by simp
next
  case (2 b bs)
  then show ?case
    using DecodeRune_not_surrogate [of "b # bs"]
    by (auto simp: prod_eq_iff simp del: DecodeRune.simps)
qed

lemma runes_not_surrogate: "r \<in> set (runes key) \<Longrightarrow> \<not> surrogate r"
  by (auto simp: runes_def dest: decodeAll_not_surrogate)

lemma legal_iff_table: "\<not> surrogate r \<Longrightarrow> isLegalXmlCharacter r \<longleftrightarrow> xml10_legal_spec r"
  by (auto simp: surrogate_def isLegalXmlCharacter_def xml10_legal_spec_def)

lemma checkRunes_None: "checkRunes rs = None \<longleftrightarrow> (\<forall>r \<in> set rs. isLegalXmlCharacter r)"
  by (induction rs) auto

lemma checkRunes_Some:
  "checkRunes rs = Some e \<Longrightarrow>
     \<exists>r \<in> set rs. \<not> isLegalXmlCharacter r \<and> e = ''Key contains invalid codepoint: '' @ fmt_U r"
  by (induction rs) (auto split: if_splits)

lemma validateKey_accepts_by_table:
  "validateKey key = None \<longleftrightarrow>
     length key \<le> 1024 \<and> ValidString key \<and> key \<noteq> ''''
     \<and> (\<forall>r \<in> set (runes key). xml10_legal_spec r)"
  using legal_iff_table runes_not_surrogate
  by (auto simp: validateKey_def checkRunes_None)

lemma validateKey_names_codepoint:
  assumes "length key \<le> 1024" "ValidString key" "key \<noteq> ''''" "validateKey key = Some e"
  shows "\<exists>r \<in> set (runes key).
           \<not> xml10_legal_spec r \<and> e = ''Key contains invalid codepoint: '' @ fmt_U r"
proof -
  from assms have "checkRunes (runes key) = Some e"
    by (simp add: validateKey_def)
  then obtain r where "r \<in> set (runes key)" "\<not> isLegalXmlCharacter r"
    "e = ''Key contains invalid codepoint: '' @ fmt_U r"
    using checkRunes_Some by blast
  then show ?thesis
    using legal_iff_table runes_not_surrogate by blast
qed

section \<open>Validation comes before every collaborator\<close>

text \<open>
  C2. When the key fails validation, each of the six operations returns the validation
  error and leaves the log of collaborator calls as it was: neither \<open>Sign\<close> nor
  \<open>SendRequest\<close> is called (and \<open>Put\<close> has not touched the stream). For \<open>ListKeys\<close> this
  holds for every non-empty marker.
\<close>

theorem invalid_key_no_network:
  assumes "validateKey key = Some err"
  shows "GetObject b key log = (Inl err, log)
       \<and> GetHeader b key log = ((None, Some err), log)
       \<and> StoreObject L b key bs log = (Some err, log)
       \<and> DeleteObject L b key log = (Some err, log)
       \<and> Put L b key body log = ((Some err, body), log)
       \<and> (key \<noteq> '''' \<longrightarrow> ListKeys L b key log = (Inl err, log))"
  using assms
  by (simp add: GetObject_def GetHeader_def StoreObject_def DeleteObject_def Put_def
        ListKeys_def)

theorem invalid_key_no_network_witness:
  "validateKey null_key = Some ''Key contains invalid codepoint: U+0000''
   \<and> GetObject refusing null_key [] = (Inl ''Key contains invalid codepoint: U+0000'', [])
   \<and> GetHeader refusing null_key [] = ((None, Some ''Key contains invalid codepoint: U+0000''), [])
   \<and> StoreObject test_lib refusing null_key ''data'' []
        = (Some ''Key contains invalid codepoint: U+0000'', [])
   \<and> DeleteObject test_lib refusing null_key []
        = (Some ''Key contains invalid codepoint: U+0000'', [])
   \<and> Put test_lib refusing null_key faulty_stream []
        = ((Some ''Key contains invalid codepoint: U+0000'', faulty_stream), [])
   \<and> ListKeys test_lib refusing null_key [] = (Inl ''Key contains invalid codepoint: U+0000'', [])"
proof -
  have bad: "validateKey null_key = Some ''Key contains invalid codepoint: U+0000''"
    by code_simp
  have nonempty: "null_key \<noteq> ''''"
    by (simp add: null_key_def)
  show ?thesis
    using invalid_key_no_network [OF bad, of refusing "[]" test_lib "''data''" faulty_stream]
      bad nonempty
    by simp
qed

section \<open>The content-integrity helper\<close>

text \<open>
  C3. A failed read during the digest is meant to come back as an error
  (\<open>md5Hash.Copy: \<dots>\<close>), but the deferred function then overwrites the named result
  \<open>err\<close> with the outcome of the rewinding \<open>Seek\<close>. On a stream whose read fails and whose
  \<open>Seek\<close> works, \<open>encodeMD5\<close> returns the empty digest and a nil error, and \<open>Put\<close> goes on
  to sign and send the request and reports success.
\<close>

theorem encodeMD5_swallows_read_failure:
  "fst (Copy (snd (Seek0 faulty_stream))) = (''taco'', Some ''input/output error'')
   \<and> fst (encodeMD5 test_lib faulty_stream) = ('''', None)
   \<and> fst (fst (Put test_lib (served ok_200) ''taco'' faulty_stream [])) = None
   \<and> length (snd (Put test_lib (served ok_200) ''taco'' faulty_stream [])) = 2"
  by code_simp

text \<open>
  In general: on a stream whose \<open>Seek\<close> works, \<open>encodeMD5\<close> returns the nil error
  whatever the read did.
\<close>

lemma encodeMD5_err_is_seek_outcome:
  assumes "seekable body"
  shows "snd (fst (encodeMD5 L body)) = None"
  using assms
  by (auto simp: encodeMD5_def Seek0_def Copy_def seekable_def Let_def
           split: list.splits option.splits prod.splits sum.splits if_splits)

lemma encodeMD5_frame:
  assumes "seekable body"
  shows "snd (encodeMD5 L body) = body\<lparr>pos := 0, seek_script := drop 2 (seek_script body)\<rparr>"
  using assms
  by (auto simp: encodeMD5_def Seek0_def Copy_def seekable_def Let_def
           split: list.splits option.splits prod.splits sum.splits if_splits)

text \<open>
  So \<open>Put\<close>, given a valid key and such a stream, hands the signer (and through it the
  connection) a request whose body is the caller's stream, standing at position 0.
\<close>

lemma Put_hands_over_rewound:
  assumes "validateKey key = None" and "seekable body"
  shows "\<exists>rest. snd (Put L b key body log)
           = log @ Sign \<lparr>Verb = ''PUT'', Path = ''/'' @ name b @ ''/'' @ key,
                          Headers = [(''Date'', clock b),
                                     (''Content-MD5'', fst (fst (encodeMD5 L body)))],
                          Parameters = [],
                          ReqBody = Some (body\<lparr>pos := 0,
                                            seek_script := drop 2 (seek_script body)\<rparr>)\<rparr> # rest"
proof -
  obtain md5 err body1 where e: "encodeMD5 L body = ((md5, err), body1)"
    by (metis surj_pair)
  have "err = None"
    using encodeMD5_err_is_seek_outcome [OF assms(2), of L] e by simp
  moreover have "body1 = body\<lparr>pos := 0, seek_script := drop 2 (seek_script body)\<rparr>"
    using encodeMD5_frame [OF assms(2), of L] e by simp
  ultimately show ?thesis
    using assms(1) e
    by (auto simp: Put_def Let_def split: prod.splits option.splits sum.splits)
qed

text \<open>
  C9. On a stream whose \<open>Seek\<close> does not fail, \<open>encodeMD5\<close> returns the caller's stream
  rewound, on every return (after a digest, after a failed read and after a failed encoder
  write): the bytes and the read fault are untouched, the position is 0, and exactly the
  two calls of \<open>Seek\<close> have been made.
\<close>

theorem encodeMD5_rewinds:
  assumes "seekable body"
  shows "snd (encodeMD5 L body) = body\<lparr>pos := 0, seek_script := drop 2 (seek_script body)\<rparr>
       \<and> data (snd (encodeMD5 L body)) = data body
       \<and> read_fault (snd (encodeMD5 L body)) = read_fault body
       \<and> pos (snd (encodeMD5 L body)) = 0"
  using encodeMD5_frame [OF assms, of L] by simp

theorem encodeMD5_rewinds_witness:
  "seekable faulty_stream \<and> pos faulty_stream = 7
   \<and> snd (encodeMD5 test_lib faulty_stream)
       = \<lparr>data = ''taco burrito'', pos = 0, read_fault = Some (4, ''input/output error''),
          seek_script = []\<rparr>"
proof -
  have s: "seekable faulty_stream"
    by (simp add: seekable_def faulty_stream_def)
  show ?thesis
    using encodeMD5_rewinds [OF s, of test_lib] s
    by (simp add: faulty_stream_def)
qed

section \<open>The query string\<close>

text \<open>
  C4, as the specification states it: the parameter set encodes to
  \<open>%ED%83%80%EC%BD%94=burrito&b%26az%3D=qu%20%3Fx\<close>. The encoder of the connection does not
  produce this text.
\<close>

theorem makeRawQuery_expected_counterexample:
  "makeRawQuery escaping_request \<noteq> expected_query
   \<and> makeRawQuery escaping_request_rev \<noteq> expected_query"
  by code_simp

text \<open>
  C4, amended: the encoder writes the pairs sorted by key and a space as \<open>+\<close>; reserved
  characters and the non-ASCII bytes are percent-escaped. The result is the same for both
  orders in which the map may be iterated.
\<close>

theorem makeRawQuery_escaping:
  "makeRawQuery escaping_request = ''b%26az%3D=qu+%3Fx&%ED%83%80%EC%BD%94=burrito''
   \<and> makeRawQuery escaping_request_rev = ''b%26az%3D=qu+%3Fx&%ED%83%80%EC%BD%94=burrito''"
  by code_simp

section \<open>DeleteObject: the status of the response\<close>

text \<open>
  C5, as the specification states it: every status other than 204 gives an error whose
  message holds the status code and the body. When the body of the response cannot be
  read, the error is the read error alone.
\<close>

theorem DeleteObject_unreadable_counterexample:
  "fst (DeleteObject test_lib (served unreadable_500) ''taco'' [])
     = Some ''connection reset by peer''
   \<and> \<not> sublist (fmt_d 500) ''connection reset by peer''"
  by code_simp

text \<open>
  C5, amended: once the request has been signed and sent and a response has come back,
  status 204 gives the nil error; any other status whose body can be read gives the error
  \<open>Error from server: <status> <body>\<close>, which contains the decimal status code and the
  whole body; and when reading the body fails, the read error is returned instead.
\<close>

theorem DeleteObject_status:
  assumes "validateKey key = None"
    and "addMd5Header L \<lparr>Verb = ''DELETE'', Path = ''/'' @ name b @ ''/'' @ key,
           Headers = [(''Date'', clock b)], Parameters = [], ReqBody = None\<rparr> [] = (None, req)"
    and "signer b req = (None, signed)"
    and "httpConn b signed = Inr resp"
  shows "(StatusCode resp = 204 \<longrightarrow> fst (DeleteObject L b key log) = None)
       \<and> (StatusCode resp \<noteq> 204 \<longrightarrow>
            (\<forall>body. ReadBody resp = Inr body \<longrightarrow>
               fst (DeleteObject L b key log)
                 = Some (''Error from server: '' @ fmt_d (StatusCode resp) @ '' '' @ body)
               \<and> sublist (fmt_d (StatusCode resp)) (the (fst (DeleteObject L b key log)))
               \<and> sublist body (the (fst (DeleteObject L b key log))))
          \<and> (\<forall>readErr. ReadBody resp = Inl readErr \<longrightarrow>
               fst (DeleteObject L b key log) = Some readErr))"
proof -
  define pre :: string where "pre = ''Error from server: ''"
  define sep :: string where "sep = '' ''"
  have run: "fst (DeleteObject L b key log)
               = (if StatusCode resp \<noteq> 204 then Some (serverError resp) else None)"
    using assms by (simp add: DeleteObject_def Let_def)
  have msg: "serverError resp = pre @ fmt_d (StatusCode resp) @ sep @ body"
    if "ReadBody resp = Inr body" for body
    using that by (simp add: serverError_def pre_def sep_def)
  have sub1: "sublist (fmt_d (StatusCode resp)) (pre @ fmt_d (StatusCode resp) @ sep @ body)"
    for body
    by (rule sublist_appendI)
  have sub2: "sublist body (pre @ fmt_d (StatusCode resp) @ sep @ body)" for body
    using sublist_append_leftI [of body "pre @ fmt_d (StatusCode resp) @ sep"] by simp
  have err: "serverError resp = readErr" if "ReadBody resp = Inl readErr" for readErr
    using that by (simp add: serverError_def)
  show ?thesis
  proof (intro conjI impI allI)
    assume "StatusCode resp = 204"
    then show "fst (DeleteObject L b key log) = None" by (simp add: run)
  next
    fix body assume "StatusCode resp \<noteq> 204" and rb: "ReadBody resp = Inr body"
    then have r: "fst (DeleteObject L b key log)
                    = Some (pre @ fmt_d (StatusCode resp) @ sep @ body)"
      by (simp add: run msg)
    from r show "fst (DeleteObject L b key log)
        = Some (''Error from server: '' @ fmt_d (StatusCode resp) @ '' '' @ body)"
      by (simp add: pre_def sep_def)
    from r show "sublist (fmt_d (StatusCode resp)) (the (fst (DeleteObject L b key log)))"
      using sub1 by simp
    from r show "sublist body (the (fst (DeleteObject L b key log)))"
      using sub2 by simp
  next
    fix readErr assume "StatusCode resp \<noteq> 204" and "ReadBody resp = Inl readErr"
    then show "fst (DeleteObject L b key log) = Some readErr"
      by (simp add: run err)
  qed
qed

theorem DeleteObject_status_witness:
  "fst (DeleteObject test_lib (served no_content_204) ''taco'' []) = None
   \<and> fst (DeleteObject test_lib (served taco_500) ''taco'' []) = Some ''Error from server: 500 taco''
   \<and> sublist ''500'' ''Error from server: 500 taco''
   \<and> sublist ''taco'' ''Error from server: 500 taco''
   \<and> fst (DeleteObject test_lib (served unreadable_500) ''taco'' [])
       = Some ''connection reset by peer''"
proof -
  have h1: "validateKey ''taco'' = None" by code_simp
  have h2: "addMd5Header test_lib \<lparr>Verb = ''DELETE'',
              Path = ''/'' @ name (served resp) @ ''/'' @ ''taco'',
              Headers = [(''Date'', clock (served resp))], Parameters = [],
              ReqBody = None\<rparr> []
            = (None, \<lparr>Verb = ''DELETE'', Path = ''/some.bucket/taco'',
                 Headers = [(''Date'', ''Mon, 18 Mar 1985 15:33:17 UTC''),
                            (''Content-MD5'', ''b64:md5:'')],
                 Parameters = [], ReqBody = None\<rparr>)" for resp
    by (simp add: addMd5Header_def encodeMD5_def NewReader_def Seek0_def Copy_def
          test_lib_def served_def)
  have h3: "signer (served resp) r = (None, r)" for resp r
    by (simp add: served_def)
  have h4: "httpConn (served resp) r = Inr resp" for resp r
    by (simp add: served_def)
  have h5: "StatusCode taco_500 = 500" "ReadBody taco_500 = Inr ''taco''" "fmt_d 500 = ''500''"
    "StatusCode no_content_204 = 204" "StatusCode unreadable_500 = 500"
    "ReadBody unreadable_500 = Inl ''connection reset by peer''"
    by (simp_all add: taco_500_def no_content_204_def unreadable_500_def network_body_def
          ReadBody_def fmt_d_def upperhex_def)
  have "fst (DeleteObject test_lib (served no_content_204) ''taco'' []) = None"
    using DeleteObject_status [OF h1 h2 h3 h4, of no_content_204 "[]"]
    by (simp add: h5)
  moreover have "fst (DeleteObject test_lib (served taco_500) ''taco'' [])
          = Some ''Error from server: 500 taco''"
    using DeleteObject_status [OF h1 h2 h3 h4, of taco_500 "[]"]
    by (simp add: h5)
  moreover have "fst (DeleteObject test_lib (served unreadable_500) ''taco'' [])
          = Some ''connection reset by peer''"
    using DeleteObject_status [OF h1 h2 h3 h4, of unreadable_500 "[]"]
    by (simp add: h5)
  moreover have "sublist ''500'' ''Error from server: 500 taco''"
    by code_simp
  moreover have "sublist ''taco'' ''Error from server: 500 taco''"
    by code_simp
  ultimately show ?thesis
    by blast
qed

section \<open>ListKeys: the request\<close>

text \<open>
  C6. \<open>ListKeys("")\<close> hands the signer a request without parameters, so without a
  \<open>marker\<close>; for a non-empty \<open>prevKey\<close> that passes validation the request carries
  exactly \<open>marker = prevKey\<close>, unencoded; a non-empty \<open>prevKey\<close> that fails validation is
  rejected with the log untouched, before any request exists.
\<close>

theorem ListKeys_marker:
  "(\<exists>rest. snd (ListKeys L b '''' log)
       = log @ Sign \<lparr>Verb = ''GET'', Path = ''/'' @ name b, Headers = [(''Date'', clock b)],
                     Parameters = [], ReqBody = None\<rparr> # rest)
   \<and> (prevKey \<noteq> '''' \<and> validateKey prevKey = None \<longrightarrow>
        (\<exists>rest. snd (ListKeys L b prevKey log)
           = log @ Sign \<lparr>Verb = ''GET'', Path = ''/'' @ name b, Headers = [(''Date'', clock b)],
                         Parameters = [(''marker'', prevKey)], ReqBody = None\<rparr> # rest))
   \<and> (prevKey \<noteq> '''' \<and> validateKey prevKey = Some err \<longrightarrow>
        ListKeys L b prevKey log = (Inl err, log))"
  by (auto simp: ListKeys_def Let_def split: prod.splits option.splits sum.splits)

theorem ListKeys_marker_witness:
  "validateKey ''taco burrito'' = None
   \<and> hd (snd (ListKeys test_lib refusing '''' []))
       = Sign \<lparr>Verb = ''GET'', Path = ''/some.bucket'',
               Headers = [(''Date'', ''Mon, 18 Mar 1985 15:33:17 UTC'')],
               Parameters = [], ReqBody = None\<rparr>
   \<and> hd (snd (ListKeys test_lib refusing ''taco burrito'' []))
       = Sign \<lparr>Verb = ''GET'', Path = ''/some.bucket'',
               Headers = [(''Date'', ''Mon, 18 Mar 1985 15:33:17 UTC'')],
               Parameters = [(''marker'', ''taco burrito'')], ReqBody = None\<rparr>
   \<and> validateKey null_key = Some ''Key contains invalid codepoint: U+0000''
   \<and> ListKeys test_lib refusing null_key [] = (Inl ''Key contains invalid codepoint: U+0000'', [])"
proof -
  have good: "validateKey ''taco burrito'' = None"
    by code_simp
  have bad: "validateKey null_key = Some ''Key contains invalid codepoint: U+0000''"
    by code_simp
  have nonempty: "null_key \<noteq> ''''"
    by (simp add: null_key_def)
  have bucket: "name refusing = ''some.bucket''"
    "clock refusing = ''Mon, 18 Mar 1985 15:33:17 UTC''"
    by (simp_all add: refusing_def)
  show ?thesis
    using ListKeys_marker [of test_lib refusing "[]" "''taco burrito''"]
      ListKeys_marker [of test_lib refusing "[]" null_key
                          "''Key contains invalid codepoint: U+0000''"]
      good bad nonempty
    by (auto simp: bucket)
qed

section \<open>ListKeys: the response\<close>

lemma ListKeys_malformed:
  assumes "prevKey = '''' \<or> validateKey prevKey = None"
    and "signer b \<lparr>Verb = ''GET'', Path = ''/'' @ name b, Headers = [(''Date'', clock b)],
           Parameters = (if prevKey = '''' then [] else [(''marker'', prevKey)]),
           ReqBody = None\<rparr> = (None, signed)"
    and "httpConn b signed = Inr resp"
    and "StatusCode resp = 200"
    and "ReadBody resp = Inr body"
    and "xml_parse L body = Inl parseErr"
  shows "fst (ListKeys L b prevKey log)
           = Inl (''Invalid data from server ('' @ parseErr @ ''): '' @ body)"
  using assms by (auto simp: ListKeys_def Let_def Unmarshal_def)

lemma ListKeys_wrong_root:
  assumes "prevKey = '''' \<or> validateKey prevKey = None"
    and "signer b \<lparr>Verb = ''GET'', Path = ''/'' @ name b, Headers = [(''Date'', clock b)],
           Parameters = (if prevKey = '''' then [] else [(''marker'', prevKey)]),
           ReqBody = None\<rparr> = (None, signed)"
    and "httpConn b signed = Inr resp"
    and "StatusCode resp = 200"
    and "ReadBody resp = Inr body"
    and "xml_parse L body = Inr (root, kids)"
    and "root \<noteq> ''ListBucketResult''"
  shows "fst (ListKeys L b prevKey log)
           = Inl (''Invalid data from server: '' @ rendering (Body resp))"
  using assms by (auto simp: ListKeys_def Let_def Unmarshal_def)

text \<open>
  C7. For malformed XML the error holds the parser's message and the body that was read
  (\<open>ListKeys_malformed\<close>). For a wrong root element the message is built from
  \<open>httpResp.Body\<close>, the stream object, and not from the bytes read from it
  (\<open>ListKeys_wrong_root\<close>): for a body as the connection supplies it, the error for a
  document with the root \<open>FooBar\<close> names neither \<open>FooBar\<close> nor any of the document.
\<close>

theorem ListKeys_wrong_root_omits_body:
  "fst (ListKeys test_lib (served foobar_200) '''' [])
     = Inl ''Invalid data from server: &{0xc000104000 false}''
   \<and> \<not> sublist ''FooBar'' ''Invalid data from server: &{0xc000104000 false}''
   \<and> \<not> sublist foobar_doc ''Invalid data from server: &{0xc000104000 false}''"
  by code_simp

lemma unmarshalContents_Key:
  "Key (unmarshalContents cs c)
     = (if key_elements cs = [] then Key c else chardata (last (key_elements cs)))"
  by (induction cs c rule: unmarshalContents.induct) (auto simp: key_elements_def)

lemma unmarshalResult_keys: "map Key (unmarshalResult kids) = document_keys kids"
  by (induction kids rule: unmarshalResult.induct)
     (auto simp: document_keys_def key_text_def unmarshalContents_Key)

text \<open>
  C8. When the response has status 200 and its body is a document with the root
  \<open>ListBucketResult\<close>, \<open>ListKeys\<close> returns the \<open>Key\<close> values under the \<open>Contents\<close>
  elements in document order, with the nil error; a root without children gives the empty
  sequence.
\<close>

theorem ListKeys_decodes_in_order:
  assumes "prevKey = '''' \<or> validateKey prevKey = None"
    and "signer b \<lparr>Verb = ''GET'', Path = ''/'' @ name b, Headers = [(''Date'', clock b)],
           Parameters = (if prevKey = '''' then [] else [(''marker'', prevKey)]),
           ReqBody = None\<rparr> = (None, signed)"
    and "httpConn b signed = Inr resp"
    and "StatusCode resp = 200"
    and "ReadBody resp = Inr body"
    and "xml_parse L body = Inr (''ListBucketResult'', kids)"
  shows "fst (ListKeys L b prevKey log) = Inr (document_keys kids) \<and> document_keys [] = []"
proof -
  have "fst (ListKeys L b prevKey log) = Inr (map Key (unmarshalResult kids))"
    using assms by (auto simp: ListKeys_def Let_def Unmarshal_def)
  then show ?thesis
    by (simp add: unmarshalResult_keys document_keys_def)
qed

theorem ListKeys_decodes_in_order_witness:
  "fst (ListKeys listing_lib (served two_keys_200) '''' []) = Inr [''bar'', ''baz'']
   \<and> fst (ListKeys listing_lib (served empty_200) '''' []) = Inr []"
proof -
  have sign: "signer (served resp) r = (None, r)" for resp r
    by (simp add: served_def)
  have send: "httpConn (served resp) r = Inr resp" for resp r
    by (simp add: served_def)
  have status: "StatusCode two_keys_200 = 200" "StatusCode empty_200 = 200"
    by (simp_all add: two_keys_200_def empty_200_def)
  have body: "ReadBody two_keys_200 = Inr two_keys_doc" "ReadBody empty_200 = Inr empty_doc"
    by (simp_all add: two_keys_200_def empty_200_def ReadBody_def network_body_def)
  have parse2: "xml_parse listing_lib two_keys_doc
      = Inr (''ListBucketResult'',
             [Element ''Contents'' [Element ''Key'' [CharData ''bar'']],
              Element ''Contents'' [Element ''Key'' [CharData ''baz'']]])"
    by (simp add: listing_lib_def test_lib_def two_keys_doc_def empty_doc_def)
  have parse0: "xml_parse listing_lib empty_doc = Inr (''ListBucketResult'', [])"
    by (simp add: listing_lib_def)
  have keys: "document_keys [Element ''Contents'' [Element ''Key'' [CharData ''bar'']],
                              Element ''Contents'' [Element ''Key'' [CharData ''baz'']]]
                = [''bar'', ''baz'']"
    by (simp add: document_keys_def key_text_def key_elements_def)
  show ?thesis
    using ListKeys_decodes_in_order [OF _ sign send status(1) body(1) parse2, of "''''" "[]"]
      ListKeys_decodes_in_order [OF _ sign send status(2) body(2) parse0, of "''''" "[]"]
    by (simp add: keys)
qed

section \<open>GetHeader: the headers accompany the error\<close>

text \<open>
  C10, as the specification states it: for a status other than 200 the header mapping comes
  back with the ServerError, and is not nil. When the body of the response cannot be read
  the error is the bare read error, without the status code; and for a response that
  carries no header the header returned is nil.
\<close>

theorem GetHeader_unreadable_counterexample:
  "fst (GetHeader (served unreadable_500) ''taco'' [])
     = (Some [], Some ''connection reset by peer'')
   \<and> \<not> sublist ''Error from server'' ''connection reset by peer''
   \<and> \<not> sublist (fmt_d 500) ''connection reset by peer''
   \<and> fst (fst (GetHeader (served headerless_500) ''taco'' [])) = None"
  by code_simp

text \<open>
  C10, amended: once a response has come back, \<open>GetHeader\<close> returns the header of the
  response as it is (nil only when the response carries none) in every case. For a status
  other than 200 it comes with an error: \<open>Error from server: <status> <body>\<close> when the
  body can be read, the read error when reading the body fails. For status 200 it comes
  with the nil error.
\<close>

theorem GetHeader_status:
  assumes "validateKey key = None"
    and "signer b \<lparr>Verb = ''HEAD'', Path = ''/'' @ name b @ ''/'' @ key,
           Headers = [(''Date'', clock b)], Parameters = [], ReqBody = None\<rparr> = (None, signed)"
    and "httpConn b signed = Inr resp"
  shows "(StatusCode resp \<noteq> 200 \<longrightarrow>
            (\<forall>body. ReadBody resp = Inr body \<longrightarrow>
               fst (GetHeader b key log)
                 = (Header resp,
                    Some (''Error from server: '' @ fmt_d (StatusCode resp) @ '' '' @ body)))
          \<and> (\<forall>readErr. ReadBody resp = Inl readErr \<longrightarrow>
               fst (GetHeader b key log) = (Header resp, Some readErr)))
       \<and> (StatusCode resp = 200 \<longrightarrow> fst (GetHeader b key log) = (Header resp, None))"
  using assms by (simp add: GetHeader_def Let_def serverError_def)

theorem GetHeader_status_witness:
  "fst (GetHeader (served taco_500) ''taco'' [])
     = (Some [(''Server'', [''AmazonS3''])], Some ''Error from server: 500 taco'')
   \<and> fst (GetHeader (served headerless_500) ''taco'' [])
       = (None, Some ''Error from server: 500 taco'')
   \<and> fst (GetHeader (served unreadable_500) ''taco'' [])
       = (Some [], Some ''connection reset by peer'')
   \<and> fst (GetHeader (served ok_200) ''taco'' []) = (Some [(''Server'', [''AmazonS3''])], None)"
proof -
  have valid: "validateKey ''taco'' = None"
    by code_simp
  have sign: "signer (served resp) r = (None, r)" for resp r
    by (simp add: served_def)
  have send: "httpConn (served resp) r = Inr resp" for resp r
    by (simp add: served_def)
  have resp: "StatusCode taco_500 = 500" "StatusCode ok_200 = 200"
    "StatusCode headerless_500 = 500" "StatusCode unreadable_500 = 500"
    "Header taco_500 = Some [(''Server'', [''AmazonS3''])]"
    "Header ok_200 = Some [(''Server'', [''AmazonS3''])]"
    "Header headerless_500 = None" "Header unreadable_500 = Some []"
    "ReadBody taco_500 = Inr ''taco''" "ReadBody headerless_500 = Inr ''taco''"
    "ReadBody unreadable_500 = Inl ''connection reset by peer''"
    "fmt_d 500 = ''500''"
    by (simp_all add: taco_500_def ok_200_def headerless_500_def unreadable_500_def
          ReadBody_def network_body_def fmt_d_def upperhex_def)
  show ?thesis
    using GetHeader_status [OF valid sign send, of taco_500 "[]"]
      GetHeader_status [OF valid sign send, of headerless_500 "[]"]
      GetHeader_status [OF valid sign send, of unreadable_500 "[]"]
      GetHeader_status [OF valid sign send, of ok_200 "[]"]
    by (simp add: resp)
qed

end
